theory Spec2Isabelle
  imports Complex_Main "HOL-Library.Multiset"
begin

section \<open>Device firmware: the valve controller\<close>

text \<open>
  The repository holds two variants of the ESP32 firmware. Both define
  \<^verbatim>\<open>controlServoWithFuzzyLogic\<close>, which reads the globals \<^verbatim>\<open>phValue\<close>,
  \<^verbatim>\<open>soilMoisture\<close> and \<^verbatim>\<open>servoPosition\<close>, computes the local \<^verbatim>\<open>newServoPos\<close>
  and then moves the servo when the change is large enough. The HTTP variant only writes
  to the servo; the MQTT variant also publishes the new position on the servo topic.

  The two sensor values are C \<^verbatim>\<open>float\<close>s that the firmware computes from integer ADC
  readings, so they are finite; they are only compared with constants, and the comparison
  of a finite float with a constant is the comparison of the two numbers. They are
  modelled as reals. Positions are C \<^verbatim>\<open>int\<close>s between 0 and 180, modelled as integers.
  Output on the serial console is diagnostic text and is left out.
\<close>

subsection \<open>The rule table\<close>

text \<open>
  The value of the local variable \<^verbatim>\<open>newServoPos\<close> after the chain of rules. It starts
  at 0 and keeps that value when no branch assigns it.
\<close>

definition newServoPos :: "real \<Rightarrow> real \<Rightarrow> int" where
  "newServoPos ph soil =
     (if ph < 4.4 \<or> soil < 30 then 180
      else if ph > 5.5 \<or> soil > 70 then 0
      else if ph \<ge> 4.4 \<and> ph \<le> 5.5 then
        (if soil < 40 then 90
         else if soil < 50 then 45
         else 0)
      else 0)"

text \<open>
  The decision function as the specification words it: three rules, the first match wins,
  and the third rule has no guard of its own.
\<close>

definition decide_spec :: "real \<Rightarrow> real \<Rightarrow> int" where
  "decide_spec ph soil =
     (if ph < 4.4 \<or> soil < 30 then 180
      else if ph > 5.5 \<or> soil > 70 then 0
      else if soil < 40 then 90
      else if soil < 50 then 45
      else 0)"

subsection \<open>The tick of the actuator\<close>

datatype effect =
    ServoWrite int
  | Publish string int nat

record device =
  phValue :: real
  soilMoisture :: real
  servoPosition :: int
  outputs :: "effect list"

definition servo_topic :: string where
  "servo_topic = ''plant_monitoring/servo/unifi''"

text \<open>
  The last statement of \<^verbatim>\<open>controlServoWithFuzzyLogic\<close>, for a given value of
  \<^verbatim>\<open>newServoPos\<close>: first in the HTTP variant, then in the MQTT variant, where
  \<open>now\<close> is the value of \<^verbatim>\<open>millis()\<close>.
\<close>

definition moveServo :: "int \<Rightarrow> device \<Rightarrow> device" where
  "moveServo newPos d =
     (if \<bar>newPos - servoPosition d\<bar> > 10
      then d\<lparr>servoPosition := newPos, outputs := outputs d @ [ServoWrite newPos]\<rparr>
      else d)"

definition moveServo_mqtt :: "nat \<Rightarrow> int \<Rightarrow> device \<Rightarrow> device" where
  "moveServo_mqtt now newPos d =
     (if \<bar>newPos - servoPosition d\<bar> > 10
      then d\<lparr>servoPosition := newPos,
             outputs := outputs d @ [ServoWrite newPos, Publish servo_topic newPos now]\<rparr>
      else d)"

definition controlServoWithFuzzyLogic :: "device \<Rightarrow> device" where
  "controlServoWithFuzzyLogic d = moveServo (newServoPos (phValue d) (soilMoisture d)) d"

definition controlServoWithFuzzyLogic_mqtt :: "nat \<Rightarrow> device \<Rightarrow> device" where
  "controlServoWithFuzzyLogic_mqtt now d =
     moveServo_mqtt now (newServoPos (phValue d) (soilMoisture d)) d"

section \<open>Server: query parameters\<close>

text \<open>
  \<^verbatim>\<open>parseInt(string, 10)\<close> as ECMAScript defines it: leading white space is skipped, one
  sign is read, then the longest run of decimal digits; whatever follows is ignored, and
  the result is \<^verbatim>\<open>NaN\<close> (\<open>None\<close>) when there is no digit. The result of \<^verbatim>\<open>parseInt\<close> is
  only compared with 0 and 5000, which the rounding of large values to a double does not
  change, so it is an unbounded integer.

  A string of the model is the UTF-8 encoding of the JavaScript string. The white space
  that \<^verbatim>\<open>parseInt\<close> skips is \<^verbatim>\<open>WhiteSpace\<close> and \<^verbatim>\<open>LineTerminator\<close> of ECMAScript: the six
  characters of one byte (U+0009 to U+000D and U+0020), U+00A0 with the two bytes C2 A0,
  and with three bytes U+1680, U+2000 to U+200A, U+2028, U+2029, U+202F, U+205F, U+3000
  and U+FEFF.
\<close>

definition isWhiteSpace :: "char \<Rightarrow> bool" where
  "isWhiteSpace c = (c \<in> set [CHR 0x09, CHR 0x0A, CHR 0x0B, CHR 0x0C, CHR 0x0D, CHR '' ''])"

definition whiteSpace3 :: "(char \<times> char \<times> char) list" where
  "whiteSpace3 =
     [(CHR 0xE1, CHR 0x9A, CHR 0x80),
      (CHR 0xE2, CHR 0x80, CHR 0x80), (CHR 0xE2, CHR 0x80, CHR 0x81),
      (CHR 0xE2, CHR 0x80, CHR 0x82), (CHR 0xE2, CHR 0x80, CHR 0x83),
      (CHR 0xE2, CHR 0x80, CHR 0x84), (CHR 0xE2, CHR 0x80, CHR 0x85),
      (CHR 0xE2, CHR 0x80, CHR 0x86), (CHR 0xE2, CHR 0x80, CHR 0x87),
      (CHR 0xE2, CHR 0x80, CHR 0x88), (CHR 0xE2, CHR 0x80, CHR 0x89),
      (CHR 0xE2, CHR 0x80, CHR 0x8A),
      (CHR 0xE2, CHR 0x80, CHR 0xA8), (CHR 0xE2, CHR 0x80, CHR 0xA9),
      (CHR 0xE2, CHR 0x80, CHR 0xAF),
      (CHR 0xE2, CHR 0x81, CHR 0x9F),
      (CHR 0xE3, CHR 0x80, CHR 0x80),
      (CHR 0xEF, CHR 0xBB, CHR 0xBF)]"

fun trimStart :: "string \<Rightarrow> string" where
  "trimStart (c # d # e # es) =
     (if isWhiteSpace c then trimStart (d # e # es)
      else if c = CHR 0xC2 \<and> d = CHR 0xA0 then trimStart (e # es)
      else if (c, d, e) \<in> set whiteSpace3 then trimStart es
      else c # d # e # es)"
| "trimStart (c # d # es) =
     (if isWhiteSpace c then trimStart (d # es)
      else if c = CHR 0xC2 \<and> d = CHR 0xA0 then trimStart es
      else c # d # es)"
| "trimStart (c # cs) = (if isWhiteSpace c then trimStart cs else c # cs)"
| "trimStart [] = []"

definition digitValue :: "char \<Rightarrow> int option" where
  "digitValue c =
     map_of [(CHR ''0'', 0), (CHR ''1'', 1), (CHR ''2'', 2), (CHR ''3'', 3), (CHR ''4'', 4),
             (CHR ''5'', 5), (CHR ''6'', 6), (CHR ''7'', 7), (CHR ''8'', 8), (CHR ''9'', 9)] c"

definition isDigit :: "char \<Rightarrow> bool" where
  "isDigit c = (digitValue c \<noteq> None)"

definition digitsValue :: "string \<Rightarrow> int" where
  "digitsValue z = foldl (\<lambda>n c. case digitValue c of None \<Rightarrow> n | Some d \<Rightarrow> 10 * n + d) 0 z"

definition parseInt :: "string \<Rightarrow> int option" where
  "parseInt inputString =
     (let s = trimStart inputString;
          sign = (case s of c # _ \<Rightarrow> if c = CHR ''-'' then - 1 else 1 | [] \<Rightarrow> (1::int));
          s = (case s of c # rest \<Rightarrow> if c = CHR ''+'' \<or> c = CHR ''-'' then rest else s | [] \<Rightarrow> s);
          z = takeWhile isDigit s
      in if z = [] then None else Some (sign * digitsValue z))"

text \<open>The decimal numeral of a natural number: the text of a limit as a client writes it,
  and the name of an index of an array. It is not code of the repository.\<close>

definition digitChar :: "nat \<Rightarrow> char" where
  "digitChar d = ''0123456789'' ! d"

fun decimal :: "nat \<Rightarrow> string" where
  "decimal n = (if n < 10 then [digitChar n] else decimal (n div 10) @ [digitChar (n mod 10)])"

declare decimal.simps [simp del]

text \<open>
  A query parameter is absent (\<open>None\<close>) or a string. \<^verbatim>\<open>parseInt(undefined, 10)\<close> reads the
  string \<^verbatim>\<open>"undefined"\<close>. A caller that leaves the fallback out gets 500.
\<close>

definition normalizeLimit :: "string option \<Rightarrow> int \<Rightarrow> int" where
  "normalizeLimit rawLimit fallback =
     (case parseInt (case rawLimit of None \<Rightarrow> ''undefined'' | Some s \<Rightarrow> s) of
        None \<Rightarrow> fallback
      | Some parsed \<Rightarrow> if parsed \<le> 0 then fallback else min parsed 5000)"

text \<open>
  A parameter is truthy when it is present and not the empty string. What \<^verbatim>\<open>new Date(value)\<close>
  accepts is left to the JavaScript engine, so the parser of dates is a parameter
  \<open>parseDate\<close>: the time in milliseconds, or \<open>None\<close> for an invalid date.
\<close>

definition truthy :: "string option \<Rightarrow> bool" where
  "truthy v = (case v of None \<Rightarrow> False | Some s \<Rightarrow> s \<noteq> [])"

definition normalizeDate :: "(string \<Rightarrow> int option) \<Rightarrow> string option \<Rightarrow> int option" where
  "normalizeDate parseDate v =
     (case v of
        None \<Rightarrow> None
      | Some s \<Rightarrow> if s = [] then None else parseDate s)"

section \<open>Server: the in-memory store\<close>

text \<open>
  A stored reading is a JavaScript object whose property \<^verbatim>\<open>receivedAt\<close> holds a
  \<^verbatim>\<open>Date\<close>: the record keeps the time of that date in milliseconds, and the other
  properties as a map.
\<close>

datatype json =
    JNull
  | JBool bool
  | JNum real
  | JStr string
  | JArr "json list"
  | JObj "(string \<times> json) list"

record reading =
  props :: "string \<rightharpoonup> json"
  receivedAt :: int

text \<open>
  Arrays are mutable and shared by reference, and \<^verbatim>\<open>sort\<close> and \<^verbatim>\<open>push\<close> change an
  array in place. The server state is therefore a store of arrays by reference, the next
  free reference, and the global variable \<^verbatim>\<open>inMemorySensors\<close>, which holds a reference.
  The state is that of the server run with \<^verbatim>\<open>USE_DUMMY_DATA=true\<close>; the external
  database of the other mode is not part of it.
\<close>

record server =
  arrays :: "nat \<Rightarrow> reading list option"
  next_ref :: nat
  inMemorySensors :: nat

definition elems :: "server \<Rightarrow> nat \<Rightarrow> reading list" where
  "elems s a = (case arrays s a of None \<Rightarrow> [] | Some xs \<Rightarrow> xs)"

definition new_array :: "reading list \<Rightarrow> server \<Rightarrow> nat \<times> server" where
  "new_array xs s =
     (next_ref s, s\<lparr>arrays := (arrays s)(next_ref s \<mapsto> xs), next_ref := Suc (next_ref s)\<rparr>)"

text \<open>The spread \<^verbatim>\<open>[...a]\<close> and \<^verbatim>\<open>a.filter(p)\<close> build a new array.\<close>

definition array_spread :: "nat \<Rightarrow> server \<Rightarrow> nat \<times> server" where
  "array_spread a s = new_array (elems s a) s"

definition array_filter :: "(reading \<Rightarrow> bool) \<Rightarrow> nat \<Rightarrow> server \<Rightarrow> nat \<times> server" where
  "array_filter p a s = new_array (filter p (elems s a)) s"

text \<open>
  \<^verbatim>\<open>a.sort(cmp)\<close> sorts the array in place and is stable. The two comparators of the
  source order by the difference of the times, in one direction or the other, so the
  sort is a stable sort on the time or on its negation.
\<close>

definition array_sort :: "(reading \<Rightarrow> int) \<Rightarrow> nat \<Rightarrow> server \<Rightarrow> server" where
  "array_sort key a s = s\<lparr>arrays := (arrays s)(a \<mapsto> sort_key key (elems s a))\<rparr>"

text \<open>
  \<^verbatim>\<open>a.slice(0, limit)\<close> builds a new array; a negative end counts from the end of the
  array.
\<close>

definition array_slice0 :: "int \<Rightarrow> nat \<Rightarrow> server \<Rightarrow> nat \<times> server" where
  "array_slice0 limit a s =
     (let len = int (length (elems s a));
          final = (if limit < 0 then max (len + limit) 0 else min limit len)
      in new_array (take (nat final) (elems s a)) s)"

definition array_push :: "reading \<Rightarrow> nat \<Rightarrow> server \<Rightarrow> server" where
  "array_push x a s = s\<lparr>arrays := (arrays s)(a \<mapsto> elems s a @ [x])\<rparr>"

subsection \<open>The range query\<close>

text \<open>
  The arguments of \<^verbatim>\<open>getSensorRange\<close>; an absent \<open>limit\<close> defaults to 500 and an absent
  \<open>sortDirection\<close> to -1. The dates are valid dates or null.
\<close>

record range_args =
  q_start :: "int option"
  q_end :: "int option"
  q_limit :: "int option"
  q_sortDirection :: "int option"

text \<open>The object \<^verbatim>\<open>query.receivedAt\<close>, when the query has one, and the filter it gives.\<close>

definition query_receivedAt :: "range_args \<Rightarrow> (int option \<times> int option) option" where
  "query_receivedAt q =
     (if q_start q \<noteq> None \<or> q_end q \<noteq> None then Some (q_start q, q_end q) else None)"

definition in_range :: "int option \<times> int option \<Rightarrow> reading \<Rightarrow> bool" where
  "in_range b reading =
     (let ts = receivedAt reading;
          afterStart = (case fst b of Some gte \<Rightarrow> ts \<ge> gte | None \<Rightarrow> True);
          beforeEnd = (case snd b of Some lte \<Rightarrow> ts \<le> lte | None \<Rightarrow> True)
      in afterStart \<and> beforeEnd)"

definition sort_key_of :: "int \<Rightarrow> reading \<Rightarrow> int" where
  "sort_key_of sortDirection r = (if sortDirection = 1 then receivedAt r else - receivedAt r)"

definition getSensorRange :: "range_args \<Rightarrow> server \<Rightarrow> nat \<times> server" where
  "getSensorRange q s =
     (let limit = (case q_limit q of None \<Rightarrow> 500 | Some l \<Rightarrow> l);
          sortDirection = (case q_sortDirection q of None \<Rightarrow> - 1 | Some d \<Rightarrow> d);
          (readings, s) = array_spread (inMemorySensors s) s;
          (readings, s) = (case query_receivedAt q of
                             Some b \<Rightarrow> array_filter (in_range b) readings s
                           | None \<Rightarrow> (readings, s));
          s = array_sort (sort_key_of sortDirection) readings s
      in array_slice0 limit readings s)"

text \<open>The records a query returns: the contents of the array that comes back.\<close>

definition range_result :: "range_args \<Rightarrow> server \<Rightarrow> reading list" where
  "range_result q s = (let (data, s') = getSensorRange q s in elems s' data)"

subsection \<open>Start-up\<close>

text \<open>
  The module starts with \<^verbatim>\<open>inMemorySensors = []\<close>. \<^verbatim>\<open>seedDummyData\<close> assigns a new array
  of two readings to the variable, where \<open>now\<close> is the time of \<^verbatim>\<open>new Date()\<close>;
  \<^verbatim>\<open>connectDB\<close> seeds an empty store.
\<close>

definition initial_server :: server where
  "initial_server = \<lparr>arrays = [0 \<mapsto> []], next_ref = 1, inMemorySensors = 0\<rparr>"

definition seed_first :: "int \<Rightarrow> reading" where
  "seed_first now =
     \<lparr>props = [''ph'' \<mapsto> JNum 5.0, ''soil'' \<mapsto> JNum 55, ''temperature'' \<mapsto> JNum 26.4,
               ''humidity'' \<mapsto> JNum 62.3, ''servo_position'' \<mapsto> JNum 90],
      receivedAt = now\<rparr>"

definition seed_second :: "int \<Rightarrow> reading" where
  "seed_second now =
     \<lparr>props = [''ph'' \<mapsto> JNum 4.7, ''soil'' \<mapsto> JNum 35, ''temperature'' \<mapsto> JNum 27.1,
               ''humidity'' \<mapsto> JNum 58.2, ''servo_position'' \<mapsto> JNum 120],
      receivedAt = now - 60000\<rparr>"

definition seedDummyData :: "int \<Rightarrow> server \<Rightarrow> server" where
  "seedDummyData now s =
     (let (a, s') = new_array [seed_first now, seed_second now] s
      in s'\<lparr>inMemorySensors := a\<rparr>)"

definition connectDB :: "int \<Rightarrow> server \<Rightarrow> server" where
  "connectDB now s =
     (if length (elems s (inMemorySensors s)) = 0 then seedDummyData now s else s)"

subsection \<open>The HTTP endpoints\<close>

text \<open>
  A response is a status and a body. The body of the range endpoint is the data with
  its count; the body of the export is the text rendered from the rows, kept here as the
  rows; the latest-reading endpoint answers with a reading or with the empty object.
\<close>

datatype body =
    ErrorBody string
  | RangeBody "reading list" nat
  | CsvBody "reading list"
  | DocBody reading
  | EmptyObject
  | SavedBody

record response =
  status :: nat
  body :: body

definition range_endpoint ::
  "(string \<Rightarrow> int option) \<Rightarrow> string option \<Rightarrow> string option \<Rightarrow> string option
     \<Rightarrow> server \<Rightarrow> response \<times> server" where
  "range_endpoint parseDate query_start query_end query_limit s =
     (let start_date = normalizeDate parseDate query_start;
          end_date = normalizeDate parseDate query_end;
          limit = normalizeLimit query_limit 200
      in if truthy query_start \<and> start_date = None
         then (\<lparr>status = 400, body = ErrorBody ''Invalid start date''\<rparr>, s)
         else if truthy query_end \<and> end_date = None
         then (\<lparr>status = 400, body = ErrorBody ''Invalid end date''\<rparr>, s)
         else
           (let (data, s') = getSensorRange
                  \<lparr>q_start = start_date, q_end = end_date, q_limit = Some limit,
                   q_sortDirection = Some (- 1)\<rparr> s
            in (\<lparr>status = 200, body = RangeBody (elems s' data) (length (elems s' data))\<rparr>, s')))"

definition csv_endpoint ::
  "(string \<Rightarrow> int option) \<Rightarrow> string option \<Rightarrow> string option \<Rightarrow> string option
     \<Rightarrow> server \<Rightarrow> response \<times> server" where
  "csv_endpoint parseDate query_start query_end query_limit s =
     (let start_date = normalizeDate parseDate query_start;
          end_date = normalizeDate parseDate query_end;
          limit = normalizeLimit query_limit 1000
      in if truthy query_start \<and> start_date = None
         then (\<lparr>status = 400, body = ErrorBody ''Invalid start date''\<rparr>, s)
         else if truthy query_end \<and> end_date = None
         then (\<lparr>status = 400, body = ErrorBody ''Invalid end date''\<rparr>, s)
         else
           (let (data, s') = getSensorRange
                  \<lparr>q_start = start_date, q_end = end_date, q_limit = Some limit,
                   q_sortDirection = Some 1\<rparr> s
            in (\<lparr>status = 200, body = CsvBody (elems s' data)\<rparr>, s')))"

text \<open>
  \<^verbatim>\<open>inMemorySensors[inMemorySensors.length - 1]\<close> is undefined on the empty array, and
  the endpoint then answers with the empty object.
\<close>

definition latest_endpoint :: "server \<Rightarrow> response" where
  "latest_endpoint s =
     (case elems s (inMemorySensors s) of
        [] \<Rightarrow> \<lparr>status = 200, body = EmptyObject\<rparr>
      | x # xs \<Rightarrow> \<lparr>status = 200, body = DocBody (last (x # xs))\<rparr>)"

subsection \<open>Ingestion\<close>

text \<open>
  Both handlers assign \<^verbatim>\<open>receivedAt\<close> to the incoming value before they look at the mode
  of the server, and then either push the value on the in-memory array, or hand it to
  \<^verbatim>\<open>insertOne\<close> of the external database, or drop it.

  In the message handler the value is whatever \<^verbatim>\<open>JSON.parse\<close> returns; \<open>parse\<close> stands
  for it and is \<open>None\<close> when it throws. The file is a CommonJS module without
  \<^verbatim>\<open>"use strict"\<close>, so the two assignments behave as follows:
  \<^item> on an object they set the properties, replacing a \<^verbatim>\<open>receivedAt\<close> or \<^verbatim>\<open>topic\<close> of the
    sender; the list of properties of a parsed object has no repeated key;
  \<^item> on an array they set the properties too, beside the elements, which are the
    properties named by the indices;
  \<^item> on a number, a string or a boolean they are discarded without an error, and the
    value stays as it is, with no property at all;
  \<^item> on \<^verbatim>\<open>null\<close> the first one throws, and the handler's \<^verbatim>\<open>catch\<close> drops the message.

  \<open>db\<close> tells whether the database handle is set, and \<open>now\<close> is the time of
  \<^verbatim>\<open>new Date()\<close>. \<open>str_includes\<close> is \<^verbatim>\<open>String.prototype.includes\<close>.
\<close>

datatype sensorData =
    Stamped reading
  | Bare json

datatype ingest =
    Pushed sensorData
  | Inserted string sensorData
  | Dropped

definition index_props :: "json list \<Rightarrow> string \<rightharpoonup> json" where
  "index_props xs = map_of (zip (map decimal [0..<length xs]) xs)"

definition stamp_message :: "int \<Rightarrow> string \<Rightarrow> json \<Rightarrow> sensorData option" where
  "stamp_message now topic parsed =
     (case parsed of
        JNull \<Rightarrow> None
      | JBool b \<Rightarrow> Some (Bare (JBool b))
      | JNum x \<Rightarrow> Some (Bare (JNum x))
      | JStr t \<Rightarrow> Some (Bare (JStr t))
      | JArr xs \<Rightarrow>
          Some (Stamped \<lparr>props = ((index_props xs)(''receivedAt'' := None))(''topic'' \<mapsto> JStr topic),
                         receivedAt = now\<rparr>)
      | JObj kvs \<Rightarrow>
          Some (Stamped \<lparr>props = ((map_of kvs)(''receivedAt'' := None))(''topic'' \<mapsto> JStr topic),
                         receivedAt = now\<rparr>))"

fun str_includes :: "string \<Rightarrow> string \<Rightarrow> bool" where
  "str_includes [] searchString = (searchString = [])"
| "str_includes (c # cs) searchString =
     (take (length searchString) (c # cs) = searchString \<or> str_includes cs searchString)"

definition on_message ::
  "bool \<Rightarrow> bool \<Rightarrow> (string \<Rightarrow> json option) \<Rightarrow> int \<Rightarrow> string \<Rightarrow> string \<Rightarrow> ingest" where
  "on_message useDummyData db parse now topic message =
     (case parse message of
        None \<Rightarrow> Dropped
      | Some parsed \<Rightarrow>
          (case stamp_message now topic parsed of
             None \<Rightarrow> Dropped
           | Some sensorData \<Rightarrow>
               (let collectionName =
                      (if str_includes topic ''servo'' then ''servo''
                       else if str_includes topic ''status'' then ''status''
                       else ''sensors'')
                in if useDummyData then Pushed sensorData
                   else if db then Inserted collectionName sensorData
                   else Dropped)))"

text \<open>
  The body of a request to the direct write endpoint is the object that the JSON
  middleware made of it, as the map of its properties. Without a database handle the
  call on the handle throws, and the handler answers with status 500 and the message of
  that error, kept here as the name of the error.
\<close>

definition post_sensors ::
  "bool \<Rightarrow> bool \<Rightarrow> int \<Rightarrow> (string \<rightharpoonup> json) \<Rightarrow> response \<times> ingest" where
  "post_sensors useDummyData db now req_body =
     (let sensorData = Stamped \<lparr>props = req_body(''receivedAt'' := None), receivedAt = now\<rparr>
      in if useDummyData then (\<lparr>status = 200, body = SavedBody\<rparr>, Pushed sensorData)
         else if db then (\<lparr>status = 200, body = SavedBody\<rparr>, Inserted ''sensors'' sensorData)
         else (\<lparr>status = 500, body = ErrorBody ''TypeError''\<rparr>, Dropped))"

text \<open>
  The effect of a handler on the in-memory store. The store of the model holds readings,
  which have a time of reception. An array on which a bare value has been pushed is not
  such a store, so the step has no result there.
\<close>

definition store_step :: "ingest \<Rightarrow> server \<Rightarrow> server option" where
  "store_step i s =
     (case i of
        Pushed sensorData \<Rightarrow>
          (case sensorData of
             Stamped r \<Rightarrow> Some (array_push r (inMemorySensors s) s)
           | Bare v \<Rightarrow> None)
      | Inserted collectionName sensorData \<Rightarrow> Some s
      | Dropped \<Rightarrow> Some s)"

section \<open>Notions used to state the properties\<close>

text \<open>
  The definitions of this section are not code of the repository: they name what the
  properties talk about.

  The stored records that satisfy the bounds of a query, these records in the order of
  the query, and the number of elements that \<^verbatim>\<open>slice(0, limit)\<close> keeps of an array of a
  given length.
\<close>

definition matching :: "range_args \<Rightarrow> reading list \<Rightarrow> reading list" where
  "matching q xs = (case query_receivedAt q of Some b \<Rightarrow> filter (in_range b) xs | None \<Rightarrow> xs)"

definition sorted_matching :: "range_args \<Rightarrow> reading list \<Rightarrow> reading list" where
  "sorted_matching q xs =
     sort_key (sort_key_of (case q_sortDirection q of None \<Rightarrow> - 1 | Some d \<Rightarrow> d)) (matching q xs)"

definition slice_count :: "int \<Rightarrow> nat \<Rightarrow> nat" where
  "slice_count limit len =
     nat (if limit < 0 then max (int len + limit) 0 else min limit (int len))"

text \<open>A store of three readings, received at 20, 30 and 10, for concrete instances.\<close>

definition reading_at :: "int \<Rightarrow> reading" where
  "reading_at t = \<lparr>props = Map.empty, receivedAt = t\<rparr>"

definition example_server :: server where
  "example_server =
     \<lparr>arrays = [0 \<mapsto> [reading_at 20, reading_at 30, reading_at 10]], next_ref = 1,
      inMemorySensors = 0\<rparr>"

text \<open>
  A date parameter that is present, not empty and not a date; and the reading, if any,
  that a handler passes on to the store.
\<close>

definition bad_date :: "(string \<Rightarrow> int option) \<Rightarrow> string option \<Rightarrow> bool" where
  "bad_date parseDate v = (case v of None \<Rightarrow> False | Some a \<Rightarrow> a \<noteq> [] \<and> parseDate a = None)"

definition stamped :: "sensorData \<Rightarrow> reading option" where
  "stamped d = (case d of Stamped r \<Rightarrow> Some r | Bare v \<Rightarrow> None)"

definition ingested :: "ingest \<Rightarrow> reading option" where
  "ingested i = (case i of Pushed d \<Rightarrow> stamped d | Inserted c d \<Rightarrow> stamped d | Dropped \<Rightarrow> None)"

section \<open>Properties of the valve controller\<close>

text \<open>
  C1. For every pH and soil moisture the code's rule chain returns what the three rules
  of the specification return, read in their order with the first match winning; when
  neither of the first two rules matches, the pH lies in [4.4, 5.5] and the moisture in
  [30, 70]; and the result is one of 0, 45, 90 and 180.
\<close>

theorem newServoPos_first_match:
  "newServoPos ph soil = decide_spec ph soil
   \<and> newServoPos ph soil \<in> {0, 45, 90, 180}
   \<and> (\<not> (ph < 4.4 \<or> soil < 30) \<and> \<not> (ph > 5.5 \<or> soil > 70)
        \<longrightarrow> 4.4 \<le> ph \<and> ph \<le> 5.5 \<and> 30 \<le> soil \<and> soil \<le> 70)"
  by (simp add: newServoPos_def decide_spec_def)

theorem newServoPos_first_match_witness:
  "newServoPos 5 35 = decide_spec 5 35 \<and> newServoPos 5 35 = 90
   \<and> (4.4::real) \<le> 5 \<and> (5::real) \<le> 5.5 \<and> (30::real) \<le> 35 \<and> (35::real) \<le> 70"
  using newServoPos_first_match [of 5 35] by (simp add: newServoPos_def)

text \<open>
  C2. A pH of exactly 4.4 is not too low: rule 1 does not match it. With a
  moisture of 50 the third rule then gives 0, since 50 is not below 50; a moisture of 49
  gives 45. A pH of 4.39 is too low and gives 180.
\<close>

theorem newServoPos_boundary:
  "newServoPos 4.4 50 = 0 \<and> newServoPos 4.4 49 = 45 \<and> newServoPos 4.39 50 = 180"
  by (simp add: newServoPos_def)

theorem newServoPos_boundary_counterexample:
  "\<not> (newServoPos 4.4 50 = 45 \<and> newServoPos 4.39 50 = 180)"
  by (simp add: newServoPos_def)

text \<open>
  C3. With \<open>target\<close> the value of the rule table on the current readings:
  when the target differs from the current position by more than 10, both variants of the
  firmware set the position to the target and write it to the servo, and the MQTT variant
  then publishes the new position with the time on the servo topic, while the HTTP variant
  emits nothing else; otherwise both leave the whole state as it is and emit nothing.
  From position 0, a target of 5 changes nothing and a target of 45 moves the servo.
\<close>

theorem controlServo_hysteresis:
  "(\<bar>newServoPos (phValue d) (soilMoisture d) - servoPosition d\<bar> > 10 \<longrightarrow>
      servoPosition (controlServoWithFuzzyLogic_mqtt now d)
        = newServoPos (phValue d) (soilMoisture d)
      \<and> outputs (controlServoWithFuzzyLogic_mqtt now d)
        = outputs d @ [ServoWrite (newServoPos (phValue d) (soilMoisture d)),
                       Publish servo_topic (newServoPos (phValue d) (soilMoisture d)) now]
      \<and> servoPosition (controlServoWithFuzzyLogic d)
        = newServoPos (phValue d) (soilMoisture d)
      \<and> outputs (controlServoWithFuzzyLogic d)
        = outputs d @ [ServoWrite (newServoPos (phValue d) (soilMoisture d))])
   \<and> (\<not> \<bar>newServoPos (phValue d) (soilMoisture d) - servoPosition d\<bar> > 10 \<longrightarrow>
      controlServoWithFuzzyLogic_mqtt now d = d \<and> controlServoWithFuzzyLogic d = d)
   \<and> phValue (controlServoWithFuzzyLogic_mqtt now d) = phValue d
   \<and> soilMoisture (controlServoWithFuzzyLogic_mqtt now d) = soilMoisture d
   \<and> phValue (controlServoWithFuzzyLogic d) = phValue d
   \<and> soilMoisture (controlServoWithFuzzyLogic d) = soilMoisture d
   \<and> (servoPosition d = 0 \<longrightarrow>
      moveServo_mqtt now 5 d = d \<and> moveServo 5 d = d
      \<and> servoPosition (moveServo_mqtt now 45 d) = 45
      \<and> outputs (moveServo_mqtt now 45 d)
          = outputs d @ [ServoWrite 45, Publish servo_topic 45 now]
      \<and> servoPosition (moveServo 45 d) = 45
      \<and> outputs (moveServo 45 d) = outputs d @ [ServoWrite 45])"
  by (simp add: controlServoWithFuzzyLogic_def controlServoWithFuzzyLogic_mqtt_def
      moveServo_def moveServo_mqtt_def)

theorem controlServo_hysteresis_witness:
  "servoPosition (controlServoWithFuzzyLogic_mqtt 7000
      \<lparr>phValue = 5, soilMoisture = 45, servoPosition = 0, outputs = []\<rparr>) = 45
   \<and> outputs (controlServoWithFuzzyLogic_mqtt 7000
      \<lparr>phValue = 5, soilMoisture = 45, servoPosition = 0, outputs = []\<rparr>)
      = [ServoWrite 45, Publish servo_topic 45 7000]
   \<and> controlServoWithFuzzyLogic_mqtt 7000
      \<lparr>phValue = 5, soilMoisture = 60, servoPosition = 0, outputs = []\<rparr>
      = \<lparr>phValue = 5, soilMoisture = 60, servoPosition = 0, outputs = []\<rparr>
   \<and> moveServo_mqtt 7000 5 \<lparr>phValue = 5, soilMoisture = 45, servoPosition = 0, outputs = []\<rparr>
      = \<lparr>phValue = 5, soilMoisture = 45, servoPosition = 0, outputs = []\<rparr>"
  using
    controlServo_hysteresis [of "\<lparr>phValue = 5, soilMoisture = 45, servoPosition = 0, outputs = []\<rparr>" 7000]
    controlServo_hysteresis [of "\<lparr>phValue = 5, soilMoisture = 60, servoPosition = 0, outputs = []\<rparr>" 7000]
  by (simp add: newServoPos_def)

theorem controlServo_http_counterexample:
  "servoPosition (controlServoWithFuzzyLogic
      \<lparr>phValue = 5, soilMoisture = 45, servoPosition = 0, outputs = []\<rparr>) = 45
   \<and> outputs (controlServoWithFuzzyLogic
      \<lparr>phValue = 5, soilMoisture = 45, servoPosition = 0, outputs = []\<rparr>) = [ServoWrite 45]"
  by (simp add: controlServoWithFuzzyLogic_def moveServo_def newServoPos_def)

section \<open>Properties of the range query\<close>

lemma getSensorRange_eq:
  "getSensorRange q s =
     (let n = next_ref s;
          xs = elems s (inMemorySensors s);
          ys = sorted_matching q xs;
          zs = take (slice_count (case q_limit q of None \<Rightarrow> 500 | Some l \<Rightarrow> l) (length ys)) ys
      in case query_receivedAt q of
           None \<Rightarrow> (Suc n, s\<lparr>arrays := (arrays s)(n \<mapsto> ys, Suc n \<mapsto> zs),
                             next_ref := Suc (Suc n)\<rparr>)
         | Some b \<Rightarrow> (Suc (Suc n),
                      s\<lparr>arrays := (arrays s)(n \<mapsto> xs, Suc n \<mapsto> ys, Suc (Suc n) \<mapsto> zs),
                        next_ref := Suc (Suc (Suc n))\<rparr>))"
  by (simp add: getSensorRange_def array_spread_def array_filter_def array_sort_def
      array_slice0_def new_array_def elems_def matching_def sorted_matching_def slice_count_def
      Let_def split: option.split)

lemma range_result_eq:
  "range_result q s =
     take (slice_count (case q_limit q of None \<Rightarrow> 500 | Some l \<Rightarrow> l)
             (length (sorted_matching q (elems s (inMemorySensors s)))))
       (sorted_matching q (elems s (inMemorySensors s)))"
  by (simp add: range_result_def getSensorRange_eq Let_def elems_def split: option.split)

lemma set_matching:
  "set (matching q xs) =
     {r \<in> set xs. (\<forall>t. q_start q = Some t \<longrightarrow> t \<le> receivedAt r)
                 \<and> (\<forall>t. q_end q = Some t \<longrightarrow> receivedAt r \<le> t)}"
  by (auto simp: matching_def query_receivedAt_def in_range_def Let_def split: option.splits)

lemma set_range_result:
  "set (range_result q s) \<subseteq> set (matching q (elems s (inMemorySensors s)))"
  unfolding range_result_eq sorted_matching_def
  using set_take_subset[of _ "sort_key _ (matching q (elems s (inMemorySensors s)))"]
  by (metis set_sort)

lemma length_range_result:
  "0 \<le> limit \<Longrightarrow> q_limit q = Some limit \<Longrightarrow> length (range_result q s) \<le> nat limit"
  by (simp add: range_result_eq slice_count_def)

lemma normalizeLimit_le:
  "fallback \<le> 5000 \<Longrightarrow> normalizeLimit raw fallback \<le> 5000"
  by (simp add: normalizeLimit_def split: option.split)

lemma normalizeLimit_pos:
  "1 \<le> fallback \<Longrightarrow> 1 \<le> normalizeLimit raw fallback"
  by (simp add: normalizeLimit_def split: option.split)

lemmas eval_simps =
  range_result_def getSensorRange_def array_spread_def array_filter_def array_sort_def
  array_slice0_def new_array_def elems_def query_receivedAt_def in_range_def sort_key_of_def
  normalizeLimit_def parseInt_def isWhiteSpace_def whiteSpace3_def isDigit_def digitValue_def
  digitsValue_def example_server_def reading_at_def Let_def

text \<open>
  C4. Every record that \<^verbatim>\<open>getSensorRange\<close> returns from the in-memory store is a stored
  record, is received at or after the start when the query has a start, and at or before
  the end when it has an end. When the limit of the query comes from \<^verbatim>\<open>normalizeLimit\<close>
  with a fallback between 1 and 5000, as at every call in the code, the number of
  returned records is at most the minimum of that limit and 5000.
\<close>

theorem getSensorRange_bounds:
  "(\<forall>r \<in> set (range_result q s).
       r \<in> set (elems s (inMemorySensors s))
       \<and> (\<forall>t. q_start q = Some t \<longrightarrow> t \<le> receivedAt r)
       \<and> (\<forall>t. q_end q = Some t \<longrightarrow> receivedAt r \<le> t))
   \<and> (1 \<le> fallback \<and> fallback \<le> 5000 \<and> q_limit q = Some (normalizeLimit raw fallback)
        \<longrightarrow> int (length (range_result q s)) \<le> min (normalizeLimit raw fallback) 5000)"
proof (intro conjI ballI impI)
  fix r assume "r \<in> set (range_result q s)"
  then have r: "r \<in> set (matching q (elems s (inMemorySensors s)))"
    using set_range_result by blast
  then show "r \<in> set (elems s (inMemorySensors s))"
    and "\<forall>t. q_start q = Some t \<longrightarrow> t \<le> receivedAt r"
    and "\<forall>t. q_end q = Some t \<longrightarrow> receivedAt r \<le> t"
    by (simp_all add: set_matching)
next
  assume a: "1 \<le> fallback \<and> fallback \<le> 5000 \<and> q_limit q = Some (normalizeLimit raw fallback)"
  then have pos: "1 \<le> normalizeLimit raw fallback" and le: "normalizeLimit raw fallback \<le> 5000"
    by (simp_all add: normalizeLimit_pos normalizeLimit_le)
  have "length (range_result q s) \<le> nat (normalizeLimit raw fallback)"
    using a pos length_range_result[of "normalizeLimit raw fallback" q s] by simp
  then show "int (length (range_result q s)) \<le> min (normalizeLimit raw fallback) 5000"
    using le pos by simp
qed

theorem getSensorRange_bounds_witness:
  "range_result \<lparr>q_start = Some 15, q_end = None,
                   q_limit = Some (normalizeLimit (Some ''2'') 200),
                   q_sortDirection = Some (- 1)\<rparr> example_server = [reading_at 30, reading_at 20]
   \<and> 15 \<le> receivedAt (reading_at 30) \<and> 15 \<le> receivedAt (reading_at 20)
   \<and> (1::int) \<le> 200 \<and> (200::int) \<le> 5000
   \<and> int (length (range_result \<lparr>q_start = Some 15, q_end = None,
                   q_limit = Some (normalizeLimit (Some ''2'') 200),
                   q_sortDirection = Some (- 1)\<rparr> example_server))
        \<le> min (normalizeLimit (Some ''2'') 200) 5000"
  using getSensorRange_bounds [of "\<lparr>q_start = Some 15, q_end = None,
                   q_limit = Some (normalizeLimit (Some ''2'') 200),
                   q_sortDirection = Some (- 1)\<rparr>" example_server 200 "Some ''2''"]
  by (simp add: eval_simps)

lemma sorted_sorted_matching:
  "sorted (map (sort_key_of (case q_sortDirection q of None \<Rightarrow> - 1 | Some d \<Rightarrow> d)) (sorted_matching q xs))"
  by (simp add: sorted_matching_def)

lemma mset_sorted_matching: "mset (sorted_matching q xs) = mset (matching q xs)"
  by (simp add: sorted_matching_def)

lemma sorted_take_drop:
  assumes "sorted (map f ys)" and "x \<in> set (take k ys)" and "y \<in> set (drop k ys)"
  shows "f x \<le> f y"
proof -
  have "sorted (map f (take k ys) @ map f (drop k ys))"
    using assms(1) by (metis append_take_drop_id map_append)
  then show ?thesis
    using assms(2,3) by (auto simp: sorted_append)
qed

lemma mset_singleton_list: "mset xs = {#k#} \<Longrightarrow> xs = [k]"
  by (cases xs) auto

lemma sort_three_desc:
  assumes m: "mset xs = {#r1, r2, r3#}"
    and lt: "receivedAt r1 < receivedAt r2" "receivedAt r2 < receivedAt r3"
  shows "sort_key (\<lambda>r. - receivedAt r) xs = [r3, r2, r1]"
proof (rule properties_for_sort_key)
  show "mset [r3, r2, r1] = mset xs"
    using m by (simp add: add_mset_commute)
  show "sorted (map (\<lambda>r. - receivedAt r) [r3, r2, r1])"
    using lt by simp
  fix k assume k: "k \<in> set [r3, r2, r1]"
  have "mset (filter (\<lambda>x. - receivedAt k = - receivedAt x) xs) = {#k#}"
    using k lt by (auto simp: mset_filter m)
  then have "filter (\<lambda>x. - receivedAt k = - receivedAt x) xs = [k]"
    by (rule mset_singleton_list)
  moreover have "filter (\<lambda>x. - receivedAt k = - receivedAt x) [r3, r2, r1] = [k]"
    using k lt by auto
  ultimately show "filter (\<lambda>x. - receivedAt k = - receivedAt x) [r3, r2, r1]
      = filter (\<lambda>x. - receivedAt k = - receivedAt x) xs"
    by simp
qed

lemma sort_key_of_desc: "d \<noteq> 1 \<Longrightarrow> sort_key_of d = (\<lambda>r. - receivedAt r)"
  by (simp add: fun_eq_iff sort_key_of_def)

text \<open>
  C5. The result of the in-memory range query is sorted by the time of reception in the
  direction of the query. With a limit that is not negative it holds as many records as
  the limit allows, and every matching record that is left out comes no earlier in the
  order than every record returned: the truncation comes after the sort. For a store
  that holds exactly three readings received at three increasing times, in any order, the
  descending query with limit 2 returns the latest and then the middle one.
\<close>

theorem range_sorted_then_truncated:
  "sorted (map (sort_key_of (case q_sortDirection q of None \<Rightarrow> - 1 | Some d \<Rightarrow> d))
       (range_result q s))
   \<and> (\<forall>limit. q_limit q = Some limit \<and> 0 \<le> limit \<longrightarrow>
         length (range_result q s)
           = min (nat limit) (length (matching q (elems s (inMemorySensors s))))
         \<and> (\<forall>r \<in> set (range_result q s).
              \<forall>r' \<in># mset (matching q (elems s (inMemorySensors s))) - mset (range_result q s).
                if q_sortDirection q = Some 1 then receivedAt r \<le> receivedAt r'
                else receivedAt r' \<le> receivedAt r))
   \<and> (mset (elems s (inMemorySensors s)) = {#r1, r2, r3#}
        \<and> receivedAt r1 < receivedAt r2 \<and> receivedAt r2 < receivedAt r3
        \<and> q_start q = None \<and> q_end q = None \<and> q_limit q = Some 2
        \<and> q_sortDirection q = Some (- 1)
        \<longrightarrow> range_result q s = [r3, r2])"
proof (intro conjI allI impI)
  let ?dir = "case q_sortDirection q of None \<Rightarrow> - 1 | Some d \<Rightarrow> d"
  let ?ys = "sorted_matching q (elems s (inMemorySensors s))"
  show "sorted (map (sort_key_of ?dir) (range_result q s))"
    unfolding range_result_eq using sorted_sorted_matching[of q "elems s (inMemorySensors s)"]
    by (simp add: take_map[symmetric] sorted_wrt_take)
  {
    fix limit assume l: "q_limit q = Some limit \<and> 0 \<le> limit"
    then have res: "range_result q s = take (nat limit) ?ys"
      by (simp add: range_result_eq slice_count_def min_def)
    have len: "length ?ys = length (matching q (elems s (inMemorySensors s)))"
      by (simp add: sorted_matching_def)
    show "length (range_result q s)
        = min (nat limit) (length (matching q (elems s (inMemorySensors s))))"
      by (simp add: res len min.commute)
    have rest: "mset (matching q (elems s (inMemorySensors s))) - mset (range_result q s)
        = mset (drop (nat limit) ?ys)"
      by (metis res mset_sorted_matching add_diff_cancel_left' append_take_drop_id mset_append)
    show "\<forall>r \<in> set (range_result q s).
            \<forall>r' \<in># mset (matching q (elems s (inMemorySensors s))) - mset (range_result q s).
              if q_sortDirection q = Some 1 then receivedAt r \<le> receivedAt r'
              else receivedAt r' \<le> receivedAt r"
    proof (intro ballI)
      fix r r'
      assume r: "r \<in> set (range_result q s)"
        and r': "r' \<in># mset (matching q (elems s (inMemorySensors s))) - mset (range_result q s)"
      have 1: "r \<in> set (take (nat limit) ?ys)"
        using r by (simp only: res)
      have 2: "r' \<in> set (drop (nat limit) ?ys)"
        using r' by (simp only: rest set_mset_mset)
      have "sort_key_of ?dir r \<le> sort_key_of ?dir r'"
        using sorted_take_drop[OF sorted_sorted_matching 1 2] .
      then show "if q_sortDirection q = Some 1 then receivedAt r \<le> receivedAt r'
              else receivedAt r' \<le> receivedAt r"
        by (auto simp: sort_key_of_def split: option.splits if_splits)
    qed
  }
  assume a: "mset (elems s (inMemorySensors s)) = {#r1, r2, r3#}
        \<and> receivedAt r1 < receivedAt r2 \<and> receivedAt r2 < receivedAt r3
        \<and> q_start q = None \<and> q_end q = None \<and> q_limit q = Some 2
        \<and> q_sortDirection q = Some (- 1)"
  then have "?ys = sort_key (\<lambda>r. - receivedAt r) (elems s (inMemorySensors s))"
    by (simp add: sorted_matching_def matching_def query_receivedAt_def sort_key_of_desc)
  then have "?ys = [r3, r2, r1]"
    using a sort_three_desc[of "elems s (inMemorySensors s)" r1 r2 r3] by simp
  then show "range_result q s = [r3, r2]"
    using a by (simp add: range_result_eq slice_count_def)
qed

theorem range_sorted_then_truncated_witness:
  "mset (elems example_server (inMemorySensors example_server))
      = {#reading_at 10, reading_at 20, reading_at 30#}
   \<and> receivedAt (reading_at 10) < receivedAt (reading_at 20)
   \<and> receivedAt (reading_at 20) < receivedAt (reading_at 30)
   \<and> range_result \<lparr>q_start = None, q_end = None, q_limit = Some 2,
                     q_sortDirection = Some (- 1)\<rparr> example_server
       = [reading_at 30, reading_at 20]"
  using range_sorted_then_truncated [of
      "\<lparr>q_start = None, q_end = None, q_limit = Some 2, q_sortDirection = Some (- 1)\<rparr>"
      example_server "reading_at 10" "reading_at 20" "reading_at 30"]
  by (simp add: elems_def example_server_def reading_at_def add_mset_commute)

lemma getSensorRange_arrays:
  "a < next_ref s \<Longrightarrow> arrays (snd (getSensorRange q s)) a = arrays s a"
  by (simp add: getSensorRange_eq Let_def split: option.split)

lemma getSensorRange_var:
  "inMemorySensors (snd (getSensorRange q s)) = inMemorySensors s"
  by (simp add: getSensorRange_eq Let_def split: option.split)

text \<open>
  C10. A range query leaves the store as it was: when the array of the store has been
  allocated, the variable \<^verbatim>\<open>inMemorySensors\<close> refers to the same array after the query,
  the array holds the same readings in the same order, and no array that existed before
  the query has changed. The filter and the sort work on arrays made by the query.
\<close>

theorem getSensorRange_frame:
  "inMemorySensors s < next_ref s \<Longrightarrow>
     inMemorySensors (snd (getSensorRange q s)) = inMemorySensors s
     \<and> elems (snd (getSensorRange q s)) (inMemorySensors (snd (getSensorRange q s)))
         = elems s (inMemorySensors s)
     \<and> (\<forall>a < next_ref s. arrays (snd (getSensorRange q s)) a = arrays s a)"
  by (simp add: getSensorRange_arrays getSensorRange_var elems_def)

theorem getSensorRange_frame_witness:
  "inMemorySensors example_server < next_ref example_server
   \<and> elems (snd (getSensorRange \<lparr>q_start = Some 15, q_end = None, q_limit = Some 2,
                     q_sortDirection = Some 1\<rparr> example_server)) 0
       = [reading_at 20, reading_at 30, reading_at 10]
   \<and> range_result \<lparr>q_start = Some 15, q_end = None, q_limit = Some 2,
                     q_sortDirection = Some 1\<rparr> example_server
       = [reading_at 20, reading_at 30]"
  using getSensorRange_frame [of example_server
      "\<lparr>q_start = Some 15, q_end = None, q_limit = Some 2, q_sortDirection = Some 1\<rparr>"]
  by (simp add: eval_simps)

text \<open>
  The frame property depends on the copy: the sort changes the array it is given, and
  applied to the array of the store itself it would reorder the store.
\<close>

lemma array_sort_in_place:
  "elems (array_sort (sort_key_of 1) (inMemorySensors example_server) example_server)
     (inMemorySensors example_server)
   = [reading_at 10, reading_at 20, reading_at 30]"
  by (simp add: array_sort_def elems_def sort_key_of_def example_server_def reading_at_def)

section \<open>Properties of the query parameters\<close>

lemma digitValue_digitChar: "d < 10 \<Longrightarrow> digitValue (digitChar d) = Some (int d)"
proof -
  assume "d < 10"
  then have "d = 0 \<or> d = 1 \<or> d = 2 \<or> d = 3 \<or> d = 4 \<or> d = 5 \<or> d = 6
    \<or> d = 7 \<or> d = 8 \<or> d = 9"
    by arith
  then show ?thesis
    by (auto simp: digitChar_def digitValue_def)
qed

lemma isDigit_digitChar: "d < 10 \<Longrightarrow> isDigit (digitChar d)"
  by (simp add: isDigit_def digitValue_digitChar)

lemma not_ws_digit: "isDigit c \<Longrightarrow> \<not> isWhiteSpace c \<and> c \<noteq> CHR ''+'' \<and> c \<noteq> CHR ''-''"
  by (auto simp: isDigit_def digitValue_def isWhiteSpace_def split: if_splits)

lemma trimStart_digit: "isDigit c \<Longrightarrow> trimStart (c # cs) = c # cs"
proof -
  assume c: "isDigit c"
  then have 1: "\<not> isWhiteSpace c" and 2: "c \<noteq> CHR 0xC2" and 3: "\<forall>d e. (c, d, e) \<notin> set whiteSpace3"
    by (auto simp: isDigit_def digitValue_def isWhiteSpace_def whiteSpace3_def split: if_splits)
  show ?thesis
  proof (cases cs)
    case Nil
    then show ?thesis using 1 by simp
  next
    case (Cons d ds)
    then show ?thesis using 1 2 3 by (cases ds) simp_all
  qed
qed

lemma decimal_digits: "\<forall>c \<in> set (decimal n). isDigit c"
proof (induction n rule: decimal.induct)
  case (1 n)
  then show ?case
    by (subst decimal.simps) (auto simp: isDigit_digitChar)
qed

lemma decimal_not_Nil: "decimal n \<noteq> []"
  by (subst decimal.simps) simp

lemma digitsValue_snoc:
  "digitsValue (z @ [c]) = (case digitValue c of None \<Rightarrow> digitsValue z | Some d \<Rightarrow> 10 * digitsValue z + d)"
  by (simp add: digitsValue_def split: option.split)

lemma digitsValue_decimal: "digitsValue (decimal n) = int n"
proof (induction n rule: decimal.induct)
  case (1 n)
  show ?case
  proof (cases "n < 10")
    case True
    then show ?thesis
      by (subst decimal.simps) (simp add: digitsValue_def digitValue_digitChar)
  next
    case False
    then have "digitsValue (decimal n) = 10 * int (n div 10) + int (n mod 10)"
      using "1.IH" by (subst decimal.simps) (simp add: digitsValue_snoc digitValue_digitChar)
    then show ?thesis by (simp add: zdiv_int zmod_int flip: of_nat_mult of_nat_add)
  qed
qed

lemma parseInt_decimal: "parseInt (decimal n) = Some (int n)"
proof -
  obtain c cs where d: "decimal n = c # cs"
    using decimal_not_Nil by (cases "decimal n") auto
  have c: "isDigit c" and cs: "\<forall>x \<in> set cs. isDigit x"
    using decimal_digits[of n] d by auto
  have tw: "takeWhile isDigit cs = cs"
    using cs by (simp add: takeWhile_eq_all_conv)
  show ?thesis
    using not_ws_digit[OF c] digitsValue_decimal[of n] c
    by (simp add: parseInt_def d tw trimStart_digit Let_def)
qed

lemma parseInt_undefined: "parseInt ''undefined'' = None"
  by (simp add: parseInt_def isWhiteSpace_def whiteSpace3_def isDigit_def digitValue_def)

text \<open>
  White space of more than one byte is skipped too: a no-break space before the digits,
  as in the query \<^verbatim>\<open>limit=%C2%A012\<close>, gives the limit 12; and a zero-width space (U+200B),
  which is not white space, gives the fallback.
\<close>

lemma normalizeLimit_unicode_space:
  "normalizeLimit (Some [CHR 0xC2, CHR 0xA0, CHR ''1'', CHR ''2'']) 200 = 12
   \<and> normalizeLimit (Some [CHR 0xEF, CHR 0xBB, CHR 0xBF, CHR '' '', CHR ''7'']) 200 = 7
   \<and> normalizeLimit (Some [CHR 0xE2, CHR 0x80, CHR 0x8B, CHR ''1'', CHR ''2'']) 200 = 200"
  by (simp add: normalizeLimit_def parseInt_def isWhiteSpace_def whiteSpace3_def isDigit_def
      digitValue_def digitsValue_def)

text \<open>
  C6. \<^verbatim>\<open>normalizeLimit\<close> returns the fallback when the raw limit is absent,
  when \<^verbatim>\<open>parseInt\<close> finds no integer in it, and when the integer is not positive;
  otherwise it returns the minimum of the integer and 5000. In particular the decimal
  numeral of a positive number \<open>k\<close> gives the minimum of \<open>k\<close> and 5000. The result is at
  most 5000 whenever the fallback is at most 5000, and at least 1 whenever the fallback
  is at least 1; the fallback itself is returned as it is.
\<close>

theorem normalizeLimit_clamp:
  "normalizeLimit None fallback = fallback
   \<and> (parseInt str = None \<longrightarrow> normalizeLimit (Some str) fallback = fallback)
   \<and> (\<forall>n. parseInt str = Some n \<and> n \<le> 0 \<longrightarrow> normalizeLimit (Some str) fallback = fallback)
   \<and> (\<forall>n. parseInt str = Some n \<and> 0 < n \<longrightarrow> normalizeLimit (Some str) fallback = min n 5000)
   \<and> normalizeLimit (Some (decimal k)) fallback = (if k = 0 then fallback else min (int k) 5000)
   \<and> (fallback \<le> 5000 \<longrightarrow> normalizeLimit raw fallback \<le> 5000)
   \<and> (1 \<le> fallback \<longrightarrow> 1 \<le> normalizeLimit raw fallback)"
  by (simp add: normalizeLimit_def parseInt_undefined parseInt_decimal split: option.split)

theorem normalizeLimit_clamp_witness:
  "normalizeLimit (Some ''abc'') 200 = 200
   \<and> normalizeLimit (Some ''-3'') 200 = 200
   \<and> normalizeLimit (Some '' 12abc'') 200 = 12
   \<and> normalizeLimit (Some ''70000'') 200 = 5000
   \<and> (200::int) \<le> 5000 \<and> (1::int) \<le> 200"
  using normalizeLimit_clamp [of 200 "''abc''" 0 "Some ''abc''"]
    normalizeLimit_clamp [of 200 "''-3''" 0 "Some ''-3''"]
    normalizeLimit_clamp [of 200 "'' 12abc''" 0 "Some '' 12abc''"]
    normalizeLimit_clamp [of 200 "''70000''" 0 "Some ''70000''"]
  by (simp add: parseInt_def isWhiteSpace_def whiteSpace3_def isDigit_def digitValue_def
      digitsValue_def)

theorem normalizeLimit_fallback_counterexample:
  "normalizeLimit None 6000 = 6000 \<and> \<not> normalizeLimit None 6000 \<le> 5000"
  by (simp add: normalizeLimit_def parseInt_undefined)

lemma bad_date_iff: "bad_date parseDate v \<longleftrightarrow> truthy v \<and> normalizeDate parseDate v = None"
  by (simp add: bad_date_def truthy_def normalizeDate_def split: option.split)

lemma absent_simps:
  "truthy None = False" "truthy (Some []) = False"
  "normalizeDate parseDate None = None" "normalizeDate parseDate (Some []) = None"
  by (simp_all add: truthy_def normalizeDate_def)

text \<open>
  C7. On the range endpoint and on the export endpoint, a start that is
  present, not empty and not a date is answered with status 400 and the state of the
  server is untouched: no query has run. The same holds for such an end when the start
  is accepted. When neither is the case, the request is answered with status 200 and the
  result of the range query on the normalised dates, with the limit normalised with the
  fallback 200 and descending order on the range endpoint, and the fallback 1000 and
  ascending order on the export. An empty parameter counts as an absent one.
\<close>

theorem date_bounds_checked:
  "(bad_date parseDate query_start \<longrightarrow>
      range_endpoint parseDate query_start query_end query_limit s
        = (\<lparr>status = 400, body = ErrorBody ''Invalid start date''\<rparr>, s)
      \<and> csv_endpoint parseDate query_start query_end query_limit s
        = (\<lparr>status = 400, body = ErrorBody ''Invalid start date''\<rparr>, s))
   \<and> (\<not> bad_date parseDate query_start \<and> bad_date parseDate query_end \<longrightarrow>
      range_endpoint parseDate query_start query_end query_limit s
        = (\<lparr>status = 400, body = ErrorBody ''Invalid end date''\<rparr>, s)
      \<and> csv_endpoint parseDate query_start query_end query_limit s
        = (\<lparr>status = 400, body = ErrorBody ''Invalid end date''\<rparr>, s))
   \<and> (\<not> bad_date parseDate query_start \<and> \<not> bad_date parseDate query_end \<longrightarrow>
      fst (range_endpoint parseDate query_start query_end query_limit s)
        = \<lparr>status = 200,
           body = RangeBody
             (range_result \<lparr>q_start = normalizeDate parseDate query_start,
                            q_end = normalizeDate parseDate query_end,
                            q_limit = Some (normalizeLimit query_limit 200),
                            q_sortDirection = Some (- 1)\<rparr> s)
             (length (range_result \<lparr>q_start = normalizeDate parseDate query_start,
                            q_end = normalizeDate parseDate query_end,
                            q_limit = Some (normalizeLimit query_limit 200),
                            q_sortDirection = Some (- 1)\<rparr> s))\<rparr>
      \<and> fst (csv_endpoint parseDate query_start query_end query_limit s)
        = \<lparr>status = 200,
           body = CsvBody
             (range_result \<lparr>q_start = normalizeDate parseDate query_start,
                            q_end = normalizeDate parseDate query_end,
                            q_limit = Some (normalizeLimit query_limit 1000),
                            q_sortDirection = Some 1\<rparr> s)\<rparr>)
   \<and> normalizeDate parseDate None = None
   \<and> normalizeDate parseDate (Some []) = None
   \<and> \<not> bad_date parseDate None
   \<and> \<not> bad_date parseDate (Some [])"
  by (simp add: bad_date_iff absent_simps range_endpoint_def csv_endpoint_def range_result_def
      Let_def split: prod.split)

theorem date_bounds_checked_witness:
  "bad_date (\<lambda>x. if x = ''2024-01-01'' then Some 1704067200000 else None) (Some ''yesterday'')
   \<and> range_endpoint (\<lambda>x. if x = ''2024-01-01'' then Some 1704067200000 else None)
        (Some ''yesterday'') None None example_server
       = (\<lparr>status = 400, body = ErrorBody ''Invalid start date''\<rparr>, example_server)
   \<and> \<not> bad_date (\<lambda>x. if x = ''2024-01-01'' then Some 1704067200000 else None) None
   \<and> bad_date (\<lambda>x. if x = ''2024-01-01'' then Some 1704067200000 else None) (Some ''soon'')
   \<and> csv_endpoint (\<lambda>x. if x = ''2024-01-01'' then Some 1704067200000 else None)
        None (Some ''soon'') None example_server
       = (\<lparr>status = 400, body = ErrorBody ''Invalid end date''\<rparr>, example_server)
   \<and> \<not> bad_date (\<lambda>x. if x = ''2024-01-01'' then Some 1704067200000 else None)
         (Some ''2024-01-01'')
   \<and> status (fst (range_endpoint (\<lambda>x. if x = ''2024-01-01'' then Some 1704067200000 else None)
        (Some ''2024-01-01'') None None example_server)) = 200"
  using
    date_bounds_checked [of "\<lambda>x. if x = ''2024-01-01'' then Some 1704067200000 else None"
      "Some ''yesterday''" None None example_server]
    date_bounds_checked [of "\<lambda>x. if x = ''2024-01-01'' then Some 1704067200000 else None"
      None "Some ''soon''" None example_server]
    date_bounds_checked [of "\<lambda>x. if x = ''2024-01-01'' then Some 1704067200000 else None"
      "Some ''2024-01-01''" None None example_server]
  by (simp add: bad_date_def)

theorem empty_date_counterexample:
  "status (fst (range_endpoint (\<lambda>x. None) (Some []) None None initial_server)) = 200
   \<and> status (fst (csv_endpoint (\<lambda>x. None) (Some []) None None initial_server)) = 200"
  by (simp add: range_endpoint_def csv_endpoint_def truthy_def normalizeDate_def Let_def
      split: prod.split)

section \<open>Properties of the latest reading and of ingestion\<close>

lemma latest_endpoint_empty:
  "elems s (inMemorySensors s) = [] \<Longrightarrow> latest_endpoint s = \<lparr>status = 200, body = EmptyObject\<rparr>"
  by (simp add: latest_endpoint_def)

lemma latest_endpoint_ordered:
  assumes "sorted (map receivedAt (elems s (inMemorySensors s)))"
    and "elems s (inMemorySensors s) \<noteq> []"
  shows "\<exists>r. latest_endpoint s = \<lparr>status = 200, body = DocBody r\<rparr>
           \<and> r \<in> set (elems s (inMemorySensors s))
           \<and> (\<forall>r' \<in> set (elems s (inMemorySensors s)). receivedAt r' \<le> receivedAt r)"
proof -
  let ?xs = "elems s (inMemorySensors s)"
  have l: "latest_endpoint s = \<lparr>status = 200, body = DocBody (last ?xs)\<rparr>"
    using assms(2) by (simp add: latest_endpoint_def split: list.split)
  have "sorted (map receivedAt (butlast ?xs @ [last ?xs]))"
    using assms by simp
  then have "\<forall>r' \<in> set (butlast ?xs). receivedAt r' \<le> receivedAt (last ?xs)"
    by (simp add: sorted_append)
  moreover have "set ?xs = insert (last ?xs) (set (butlast ?xs))"
    using assms(2) by (metis append_butlast_last_id list.simps(15) rotate1.simps(2) set_rotate1)
  ultimately show ?thesis
    using l assms(2) by auto
qed

text \<open>
  C8. After start-up in the in-memory mode the store
  holds the two seed readings, the newer one first. The latest-reading endpoint answers
  with the last element of the array, which is the older seed reading, although the store
  holds a reading received later.
\<close>

theorem latest_after_seed:
  "latest_endpoint (connectDB now initial_server)
     = \<lparr>status = 200, body = DocBody (seed_second now)\<rparr>
   \<and> elems (connectDB now initial_server) (inMemorySensors (connectDB now initial_server))
     = [seed_first now, seed_second now]
   \<and> receivedAt (seed_second now) < receivedAt (seed_first now)"
  by (simp add: latest_endpoint_def connectDB_def seedDummyData_def new_array_def elems_def
      initial_server_def seed_first_def seed_second_def)

text \<open>
  What does hold of ingestion: whatever reading a handler passes on to the store, in
  either mode of the server, its time of reception is the time of the server at ingestion,
  and nothing of a \<^verbatim>\<open>receivedAt\<close> sent with the payload is left. A message that parses to
  an object, and every body of the direct write endpoint, is passed on as such a reading
  whenever the server has a store, and in the in-memory mode the reading is appended to
  the stored list.
\<close>

lemma stamped_by_server:
  "(ingested (on_message useDummyData db parse now topic message) = Some r
      \<longrightarrow> receivedAt r = now \<and> props r ''receivedAt'' = None)
   \<and> (ingested (snd (post_sensors useDummyData db now req_body)) = Some r
      \<longrightarrow> receivedAt r = now \<and> props r ''receivedAt'' = None)
   \<and> (parse message = Some (JObj kvs) \<and> (useDummyData \<or> db)
      \<longrightarrow> ingested (on_message useDummyData db parse now topic message)
          = Some \<lparr>props = ((map_of kvs)(''receivedAt'' := None))(''topic'' \<mapsto> JStr topic),
                  receivedAt = now\<rparr>)
   \<and> (useDummyData \<or> db
      \<longrightarrow> ingested (snd (post_sensors useDummyData db now req_body))
          = Some \<lparr>props = req_body(''receivedAt'' := None), receivedAt = now\<rparr>)
   \<and> map_option (\<lambda>s'. elems s' (inMemorySensors s')) (store_step (Pushed (Stamped r)) s)
       = Some (elems s (inMemorySensors s) @ [r])"
  by (auto simp: on_message_def stamp_message_def post_sensors_def ingested_def stamped_def
      store_step_def array_push_def elems_def Let_def split: option.splits json.splits)

lemma object_with_receivedAt_stamped:
  "ingested (on_message True False
       (\<lambda>m. Some (JObj [(''ph'', JNum 5), (''receivedAt'', JStr ''1999-01-01'')]))
       1704067200000 ''plant_monitoring/sensors/unifi'' message)
     = Some \<lparr>props = [''ph'' \<mapsto> JNum 5, ''receivedAt'' \<mapsto> JStr ''1999-01-01'']
                      (''receivedAt'' := None, ''topic'' \<mapsto> JStr ''plant_monitoring/sensors/unifi''),
             receivedAt = 1704067200000\<rparr>"
  by (simp add: on_message_def stamp_message_def ingested_def stamped_def)

text \<open>
  C9. The message handler in the in-memory mode, on a message whose payload is the JSON
  number 5: the two assignments are discarded, and the handler pushes the bare number on
  the array of the store. No reading with a time of reception is passed on, and the
  stored value has none. The same holds of a JSON string and of a JSON boolean.
\<close>

theorem on_message_primitive_unstamped:
  "on_message True db (\<lambda>m. Some (JNum 5)) now topic message = Pushed (Bare (JNum 5))
   \<and> ingested (on_message True db (\<lambda>m. Some (JNum 5)) now topic message) = None
   \<and> store_step (on_message True db (\<lambda>m. Some (JNum 5)) now topic message) s = None
   \<and> on_message True db (\<lambda>m. Some (JStr ''dry'')) now topic message = Pushed (Bare (JStr ''dry''))
   \<and> on_message True db (\<lambda>m. Some (JBool True)) now topic message = Pushed (Bare (JBool True))"
  by (simp add: on_message_def stamp_message_def ingested_def stamped_def store_step_def)

end
